theory Spec2Isabelle
  imports Complex_Main
begin

section \<open>Medical-grade graviton safety controller\<close>

text \<open>
  A shallow embedding of \<^verbatim>\<open>src/src/graviton_safety_controller.py\<close>.

  Conventions of the embedding:
  \<^item> Python and NumPy floats are idealised as \<^typ>\<open>real\<close>: rounding, overflow, infinities
    and NaN inputs are outside the model. Where an operation on real inputs is undefined
    in the source (a division by zero, the minimum of an empty array) the model makes the
    outcome explicit instead of using HOL's total operations.
  \<^item> An array of shape \<^verbatim>\<open>(4, 4) + grid\<close> is the list, over the grid points in flattened
    order, of the local tensors (lists of rows) at each point.
  \<^item> Dictionaries with a fixed set of string keys are records whose fields are the keys.
  \<^item> Logging is not modelled; wall-clock readings are inputs of the operations that
    read the clock; the monitoring threads are not modelled.
  \<^item> Functions keep the names of the source without a leading underscore. A method that
    reads no attribute of the controller takes no controller argument; a method that
    reads or writes attributes takes the controller state, and returns the new state when
    it is an operation on that state.
\<close>

subsection \<open>Enumerations and data classes\<close>

datatype py_error = ZeroDivisionError | ValueError | IndexError

datatype BiologicalSafetyLevel =
    NEURAL_ULTRA_SAFE
  | VASCULAR_SAFE
  | CELLULAR_SAFE
  | TISSUE_STANDARD
  | ORGAN_LEVEL
  | SURGICAL_TOOLS

fun level_value :: "BiologicalSafetyLevel \<Rightarrow> string" where
  "level_value NEURAL_ULTRA_SAFE = ''neural_ultra_safe''"
| "level_value VASCULAR_SAFE = ''vascular_safe''"
| "level_value CELLULAR_SAFE = ''cellular_safe''"
| "level_value TISSUE_STANDARD = ''tissue_standard''"
| "level_value ORGAN_LEVEL = ''organ_level''"
| "level_value SURGICAL_TOOLS = ''surgical_tools''"

record GravitonSafetyConstraints =
  max_field_strength_tesla :: real
  max_energy_density_joules_m3 :: real
  max_spacetime_curvature :: real
  emergency_shutdown_time_ms :: real
  biological_protection_factor :: real
  causality_preservation_threshold :: real
  positive_energy_compliance :: real

type_synonym tensor = "real list list"
type_synonym ndarray = "tensor list"

record GravitonFieldMetrics =
  field_strength_tesla :: real
  energy_density_joules_m3 :: real
  stress_energy_tensor :: ndarray
  spacetime_curvature :: real
  causality_preservation :: real
  positive_energy_compliance :: real
  biological_safety_factor :: real
  lqg_enhancement_factor :: real
  emergency_response_ready :: bool

definition zeros_4x4 :: tensor where
  "zeros_4x4 = replicate 4 (replicate 4 0)"

text \<open>\<^verbatim>\<open>GravitonFieldMetrics()\<close>: every field at its declared default.\<close>

definition default_GravitonFieldMetrics :: GravitonFieldMetrics where
  "default_GravitonFieldMetrics =
     \<lparr> field_strength_tesla = 0,
       energy_density_joules_m3 = 0,
       stress_energy_tensor = [zeros_4x4],
       spacetime_curvature = 0,
       causality_preservation = 1,
       positive_energy_compliance = 1,
       biological_safety_factor = 0,
       lqg_enhancement_factor = 1,
       emergency_response_ready = True \<rparr>"

subsection \<open>The controller\<close>

text \<open>
  The attributes of \<^verbatim>\<open>MedicalGravitonSafetyController\<close> that the modelled operations read
  or write. The buffers without a tensor structure of their own are flattened.
\<close>

record controller =
  safety_level :: BiologicalSafetyLevel
  emergency_protocols_enabled :: bool
  safety_constraints :: GravitonSafetyConstraints
  polymer_scale_mu :: real
  gamma_immirzi :: real
  lqg_energy_reduction :: real
  polymer_length_scale :: real
  graviton_field_h :: ndarray
  stress_energy_tensor :: "real list"
  riemann_curvature :: "real list"
  polymer_holonomy :: "complex list"
  polymer_flux :: "real list"
  field_metrics :: GravitonFieldMetrics
  field_active :: bool
  emergency_stop :: bool
  monitoring_active :: bool

text \<open>\<^verbatim>\<open>_initialize_safety_constraints\<close>: the table of limits per safety level; the other
  four fields of the data class keep their defaults.\<close>

fun max_field_tesla :: "BiologicalSafetyLevel \<Rightarrow> real" where
  "max_field_tesla NEURAL_ULTRA_SAFE = 1 / 10 ^ 18"
| "max_field_tesla VASCULAR_SAFE = 1 / 10 ^ 16"
| "max_field_tesla CELLULAR_SAFE = 1 / 10 ^ 14"
| "max_field_tesla TISSUE_STANDARD = 1 / 10 ^ 12"
| "max_field_tesla ORGAN_LEVEL = 1 / 10 ^ 10"
| "max_field_tesla SURGICAL_TOOLS = 1 / 10 ^ 8"

fun max_energy_density :: "BiologicalSafetyLevel \<Rightarrow> real" where
  "max_energy_density NEURAL_ULTRA_SAFE = 1 / 10 ^ 30"
| "max_energy_density VASCULAR_SAFE = 1 / 10 ^ 28"
| "max_energy_density CELLULAR_SAFE = 1 / 10 ^ 26"
| "max_energy_density TISSUE_STANDARD = 1 / 10 ^ 24"
| "max_energy_density ORGAN_LEVEL = 1 / 10 ^ 22"
| "max_energy_density SURGICAL_TOOLS = 1 / 10 ^ 20"

fun max_curvature :: "BiologicalSafetyLevel \<Rightarrow> real" where
  "max_curvature NEURAL_ULTRA_SAFE = 1 / 10 ^ 50"
| "max_curvature VASCULAR_SAFE = 1 / 10 ^ 48"
| "max_curvature CELLULAR_SAFE = 1 / 10 ^ 46"
| "max_curvature TISSUE_STANDARD = 1 / 10 ^ 44"
| "max_curvature ORGAN_LEVEL = 1 / 10 ^ 42"
| "max_curvature SURGICAL_TOOLS = 1 / 10 ^ 40"

definition initialize_safety_constraints :: "BiologicalSafetyLevel \<Rightarrow> GravitonSafetyConstraints" where
  "initialize_safety_constraints level =
     \<lparr> max_field_strength_tesla = max_field_tesla level,
       max_energy_density_joules_m3 = max_energy_density level,
       max_spacetime_curvature = max_curvature level,
       emergency_shutdown_time_ms = 50,
       biological_protection_factor = 10 ^ 12,
       causality_preservation_threshold = 995 / 1000,
       GravitonSafetyConstraints.positive_energy_compliance = 1 \<rparr>"

text \<open>The safety levels in the order of the enumeration, most conservative first.\<close>

definition safety_levels :: "BiologicalSafetyLevel list" where
  "safety_levels =
     [NEURAL_ULTRA_SAFE, VASCULAR_SAFE, CELLULAR_SAFE, TISSUE_STANDARD, ORGAN_LEVEL, SURGICAL_TOOLS]"

subsection \<open>Safety validation\<close>

text \<open>The entries of \<^verbatim>\<open>safety_violations\<close>: each formatted message is its kind together
  with the number the message prints.\<close>

datatype violation =
    Field_strength_exceeds_limit real
  | Energy_density_exceeds_limit real
  | Positive_energy_compliance_below_requirement real
  | Causality_preservation_below_threshold real

record safety_margin_factors =
  field_strength_margin :: real
  energy_density_margin :: real
  biological_protection_factor :: real
  overall_safety_margin :: real

record validation_results =
  safe_for_medical_use :: bool
  safety_violations :: "violation list"
  safety_margin_factors :: safety_margin_factors
  emergency_action_required :: bool
  biological_protection_validated :: bool

text \<open>Python's float division raises on a zero divisor.\<close>

definition py_truediv :: "real \<Rightarrow> real \<Rightarrow> py_error + real" where
  "py_truediv a b = (if b = 0 then Inl ZeroDivisionError else Inr (a / b))"

text \<open>The four checks of \<^verbatim>\<open>validate_medical_safety\<close>, each an update of the result
  dictionary, in the order of the source.\<close>

definition check_field_strength :: "real \<Rightarrow> validation_results \<Rightarrow> validation_results" where
  "check_field_strength field_strength_ratio v =
     (if field_strength_ratio > 1 then
        (let v1 = v\<lparr> safe_for_medical_use := False,
                     safety_violations :=
                       safety_violations v @ [Field_strength_exceeds_limit field_strength_ratio] \<rparr>
         in if field_strength_ratio > 10 then v1\<lparr> emergency_action_required := True \<rparr> else v1)
      else v)"

definition check_energy_density :: "real \<Rightarrow> validation_results \<Rightarrow> validation_results" where
  "check_energy_density energy_density_ratio v =
     (if energy_density_ratio > 1 then
        v\<lparr> safe_for_medical_use := False,
           safety_violations :=
             safety_violations v @ [Energy_density_exceeds_limit energy_density_ratio] \<rparr>
      else v)"

definition check_positive_energy ::
  "GravitonSafetyConstraints \<Rightarrow> GravitonFieldMetrics \<Rightarrow> validation_results \<Rightarrow> validation_results" where
  "check_positive_energy c m v =
     (if GravitonFieldMetrics.positive_energy_compliance m
           < GravitonSafetyConstraints.positive_energy_compliance c then
        v\<lparr> safe_for_medical_use := False,
           biological_protection_validated := False,
           safety_violations :=
             safety_violations v @
               [Positive_energy_compliance_below_requirement
                  (GravitonFieldMetrics.positive_energy_compliance m)],
           emergency_action_required := True \<rparr>
      else v)"

definition check_causality ::
  "GravitonSafetyConstraints \<Rightarrow> GravitonFieldMetrics \<Rightarrow> validation_results \<Rightarrow> validation_results" where
  "check_causality c m v =
     (if causality_preservation m < causality_preservation_threshold c then
        v\<lparr> safe_for_medical_use := False,
           safety_violations :=
             safety_violations v @
               [Causality_preservation_below_threshold (causality_preservation m)],
           emergency_action_required := True \<rparr>
      else v)"

definition margin_factors :: "real \<Rightarrow> real \<Rightarrow> GravitonFieldMetrics \<Rightarrow> safety_margin_factors" where
  "margin_factors field_strength_ratio energy_density_ratio m =
     \<lparr> field_strength_margin = 1 / max field_strength_ratio (1 / 10 ^ 10),
       energy_density_margin = 1 / max energy_density_ratio (1 / 10 ^ 10),
       biological_protection_factor = biological_safety_factor m,
       overall_safety_margin =
         min (min (1 / max field_strength_ratio (1 / 10 ^ 10))
                  (1 / max energy_density_ratio (1 / 10 ^ 10)))
             (biological_safety_factor m) \<rparr>"

definition initial_validation_results :: validation_results where
  "initial_validation_results =
     \<lparr> safe_for_medical_use = True,
       safety_violations = [],
       safety_margin_factors =
         \<lparr> field_strength_margin = 0, energy_density_margin = 0,
           biological_protection_factor = 0, overall_safety_margin = 0 \<rparr>,
       emergency_action_required = False,
       biological_protection_validated = True \<rparr>"

definition validate_medical_safety ::
  "controller \<Rightarrow> GravitonFieldMetrics \<Rightarrow> py_error + validation_results" where
  "validate_medical_safety self m =
     (let c = safety_constraints self in
      case py_truediv (field_strength_tesla m) (max_field_strength_tesla c) of
        Inl e \<Rightarrow> Inl e
      | Inr field_strength_ratio \<Rightarrow>
          (let v1 = check_field_strength field_strength_ratio initial_validation_results in
           case py_truediv (energy_density_joules_m3 m) (max_energy_density_joules_m3 c) of
             Inl e \<Rightarrow> Inl e
           | Inr energy_density_ratio \<Rightarrow>
               (let v2 = check_energy_density energy_density_ratio v1;
                    v3 = check_positive_energy c m v2;
                    v4 = check_causality c m v3
                in Inr (v4\<lparr> safety_margin_factors :=
                              margin_factors field_strength_ratio energy_density_ratio m \<rparr>))))"

subsection \<open>Construction\<close>

text \<open>The physical constants come from \<^verbatim>\<open>scipy.constants\<close> (CODATA 2018); the properties
  below use of them only that the gravitational constant is positive.\<close>

definition const_G :: real where
  "const_G = 66743 / 10 ^ 15"

definition planck_length :: real where
  "planck_length = 1616255 / 10 ^ 41"

definition grid_points :: nat where
  "grid_points = 64 * 64 * 64"

text \<open>\<^verbatim>\<open>__init__\<close> with \<^verbatim>\<open>_initialize_graviton_field_system\<close>: the state of a new controller.\<close>

definition MedicalGravitonSafetyController :: "BiologicalSafetyLevel \<Rightarrow> bool \<Rightarrow> controller" where
  "MedicalGravitonSafetyController level enable_emergency_protocols =
     \<lparr> safety_level = level,
       emergency_protocols_enabled = enable_emergency_protocols,
       safety_constraints = initialize_safety_constraints level,
       polymer_scale_mu = 15 / 100,
       gamma_immirzi = 2375 / 10000,
       lqg_energy_reduction = 242 * 10 ^ 6,
       polymer_length_scale = 100 * planck_length,
       graviton_field_h = replicate grid_points zeros_4x4,
       stress_energy_tensor = replicate (16 * grid_points) 0,
       riemann_curvature = replicate (256 * grid_points) 0,
       polymer_holonomy = replicate (4 * grid_points) 0,
       polymer_flux = replicate (3 * grid_points) 0,
       field_metrics = default_GravitonFieldMetrics,
       field_active = False,
       emergency_stop = False,
       monitoring_active = True \<rparr>"

subsection \<open>Positive-energy constraint enforcement\<close>

text \<open>\<^verbatim>\<open>np.linalg.norm(field_config, axis=(0, 1))\<close> is the Frobenius norm of the local tensor
  at each grid point.\<close>

definition frobenius_norm :: "tensor \<Rightarrow> real" where
  "frobenius_norm t = sqrt (sum_list (map (\<lambda>x. \<bar>x\<bar> ^ 2) (concat t)))"

definition local_stress_energy :: "real \<Rightarrow> tensor" where
  "local_stress_energy energy_density =
     [[energy_density, 0, 0, 0],
      [0, 1 / 10 * energy_density, 0, 0],
      [0, 0, 1 / 10 * energy_density, 0],
      [0, 0, 0, 1 / 10 * energy_density]]"

definition compute_stress_energy_tensor :: "ndarray \<Rightarrow> ndarray" where
  "compute_stress_energy_tensor field_config =
     map (\<lambda>t. let field_strength = frobenius_norm t;
                   energy_density = 1 / 2 * field_strength ^ 2 / (8 * pi * const_G)
               in local_stress_energy energy_density)
         field_config"

text \<open>\<^verbatim>\<open>stress_energy[0, 0]\<close>: the grid of the \<open>T_00\<close> components.\<close>

definition T_00 :: "ndarray \<Rightarrow> real list" where
  "T_00 stress_energy = map (\<lambda>t. t ! 0 ! 0) stress_energy"

text \<open>\<^verbatim>\<open>np.min\<close> raises on an array without elements.\<close>

definition np_min :: "real list \<Rightarrow> py_error + real" where
  "np_min xs = (if xs = [] then Inl ValueError else Inr (Min (set xs)))"

definition count_where :: "(real \<Rightarrow> bool) \<Rightarrow> real list \<Rightarrow> nat" where
  "count_where P xs = length (filter P xs)"

text \<open>The loop over \<^verbatim>\<open>mu, nu in range(4)\<close> scales the sixteen components it indexes; the
  indexing raises when the first two axes are shorter than four.\<close>

definition has_4x4 :: "tensor \<Rightarrow> bool" where
  "has_4x4 t = (4 \<le> length t \<and> list_all (\<lambda>row. 4 \<le> length row) t)"

definition scale_tensor :: "real \<Rightarrow> tensor \<Rightarrow> tensor" where
  "scale_tensor reduction_factor t =
     map (\<lambda>row. map (\<lambda>v. v * reduction_factor) (take 4 row) @ drop 4 row) (take 4 t) @ drop 4 t"

definition project_to_positive_energy :: "ndarray \<Rightarrow> py_error + ndarray" where
  "project_to_positive_energy field_config =
     (let energy_density = T_00 (compute_stress_energy_tensor field_config);
          negative_regions = map (\<lambda>e. e < 0) energy_density
      in if list_ex (\<lambda>b. b) negative_regions then
           (if list_all has_4x4 field_config then
              Inr (map (\<lambda>(t, negative). if negative then scale_tensor (1 / 10) t else t)
                       (zip field_config negative_regions))
            else Inl IndexError)
         else Inr field_config)"

record constraint_metrics =
  min_energy_density :: real
  positive_energy_satisfied :: bool
  constraint_violation_points :: nat
  total_field_points :: nat
  compliance_ratio :: real
  projection_applied :: bool
  safe_min_energy_density :: "real option"
  safe_compliance_ratio :: "real option"

text \<open>The two keys \<^verbatim>\<open>safe_min_energy_density\<close> and \<^verbatim>\<open>safe_compliance_ratio\<close> exist only
  after a projection; \<^verbatim>\<open>projection_applied\<close> is set on both branches.\<close>

definition enforce_positive_energy_constraint ::
  "ndarray \<Rightarrow> py_error + (ndarray \<times> constraint_metrics)" where
  "enforce_positive_energy_constraint field_configuration =
     (let stress_energy = compute_stress_energy_tensor field_configuration;
          energy_density = T_00 stress_energy
      in case np_min energy_density of
           Inl e \<Rightarrow> Inl e
         | Inr min_energy \<Rightarrow>
             (let metrics =
                    \<lparr> min_energy_density = min_energy,
                      positive_energy_satisfied = (min_energy \<ge> 0),
                      constraint_violation_points = count_where (\<lambda>e. e < 0) energy_density,
                      total_field_points = length energy_density,
                      compliance_ratio =
                        real (count_where (\<lambda>e. e \<ge> 0) energy_density) / real (length energy_density),
                      projection_applied = False,
                      safe_min_energy_density = None,
                      safe_compliance_ratio = None \<rparr>
              in if min_energy < 0 then
                   (case project_to_positive_energy field_configuration of
                      Inl e \<Rightarrow> Inl e
                    | Inr safe_configuration \<Rightarrow>
                        (let safe_energy_density =
                               T_00 (compute_stress_energy_tensor safe_configuration)
                         in case np_min safe_energy_density of
                              Inl e \<Rightarrow> Inl e
                            | Inr safe_min \<Rightarrow>
                                Inr (safe_configuration,
                                     metrics\<lparr> projection_applied := True,
                                              safe_min_energy_density := Some safe_min,
                                              safe_compliance_ratio :=
                                                Some (real (count_where (\<lambda>e. e \<ge> 0) safe_energy_density)
                                                      / real (length safe_energy_density)) \<rparr>)))
                 else Inr (field_configuration, metrics\<lparr> projection_applied := False \<rparr>)))"

subsection \<open>Polymer enhancement\<close>

text \<open>\<^verbatim>\<open>np.sinc\<close> is the normalised sinc, \<open>sin (pi x) / (pi x)\<close>, with value 1 at 0.
  \<^verbatim>\<open>np.linalg.norm\<close> without an axis is the 2-norm of the flattened array; the classical
  field is that flattened array.\<close>

definition np_sinc :: "real \<Rightarrow> real" where
  "np_sinc x = (if x = 0 then 1 else sin (pi * x) / (pi * x))"

definition np_linalg_norm :: "real list \<Rightarrow> real" where
  "np_linalg_norm xs = sqrt (sum_list (map (\<lambda>x. \<bar>x\<bar> ^ 2) xs))"

text \<open>The quotient of two NumPy scalars is NaN, not an exception, when both are zero;
  \<open>None\<close> stands for that NaN. The numerator here is zero whenever the divisor is.\<close>

definition np_divide :: "real \<Rightarrow> real \<Rightarrow> real option" where
  "np_divide a b = (if b = 0 then None else Some (a / b))"

record enhancement_metrics =
  sinc_enhancement_factor :: real
  immirzi_enhancement :: real
  energy_reduction_factor :: real
  polymer_scale_mu :: real
  gamma_immirzi :: real
  field_strength_reduction :: "real option"

definition apply_lqg_polymer_enhancement ::
  "controller \<Rightarrow> real list \<Rightarrow> real list \<times> enhancement_metrics" where
  "apply_lqg_polymer_enhancement self classical_field =
     (let sinc_factor = np_sinc (pi * controller.polymer_scale_mu self);
          immirzi = controller.gamma_immirzi self / (1 + controller.gamma_immirzi self ^ 2);
          enhanced_field = map (\<lambda>x. sinc_factor * immirzi * x) classical_field;
          energy_reduction_achieved = lqg_energy_reduction self * sinc_factor
      in (enhanced_field,
          \<lparr> sinc_enhancement_factor = sinc_factor,
            immirzi_enhancement = immirzi,
            energy_reduction_factor = energy_reduction_achieved,
            polymer_scale_mu = controller.polymer_scale_mu self,
            gamma_immirzi = controller.gamma_immirzi self,
            field_strength_reduction =
              np_divide (np_linalg_norm enhanced_field) (np_linalg_norm classical_field) \<rparr>))"

subsection \<open>Emergency shutdown\<close>

record shutdown_metrics =
  shutdown_time_ms :: real
  within_medical_response_limit :: bool
  emergency_response_requirement_ms :: real
  all_fields_deactivated :: bool
  positive_energy_maintained :: bool
  causality_preserved :: bool
  biological_safety_secured :: bool
  system_safe_state :: bool

text \<open>\<^verbatim>\<open>ndarray.fill(0)\<close> keeps the shape and overwrites every element.\<close>

definition fill_zero :: "'a::zero list \<Rightarrow> 'a list" where
  "fill_zero xs = map (\<lambda>_. 0) xs"

definition fill_zero_field :: "ndarray \<Rightarrow> ndarray" where
  "fill_zero_field a = map (map fill_zero) a"

text \<open>The two readings of \<^verbatim>\<open>time.time()\<close>, in seconds, are the arguments \<open>shutdown_start\<close>
  and \<open>shutdown_end\<close>.\<close>

definition emergency_graviton_shutdown ::
  "controller \<Rightarrow> real \<Rightarrow> real \<Rightarrow> controller \<times> shutdown_metrics" where
  "emergency_graviton_shutdown self shutdown_start shutdown_end =
     (let self1 = self\<lparr> field_active := False, emergency_stop := True \<rparr>;
          self2 = self1\<lparr> graviton_field_h := fill_zero_field (graviton_field_h self1),
                         controller.stress_energy_tensor :=
                           fill_zero (controller.stress_energy_tensor self1),
                         riemann_curvature := fill_zero (riemann_curvature self1) \<rparr>;
          self3 = self2\<lparr> polymer_holonomy := fill_zero (polymer_holonomy self2),
                         polymer_flux := fill_zero (polymer_flux self2) \<rparr>;
          self4 = self3\<lparr> field_metrics :=
                           default_GravitonFieldMetrics\<lparr> emergency_response_ready := True \<rparr> \<rparr>;
          shutdown_time = shutdown_end - shutdown_start;
          time_ms = shutdown_time * 1000;
          within_medical_limit =
            (time_ms < emergency_shutdown_time_ms (safety_constraints self4))
      in (self4,
          \<lparr> shutdown_time_ms = time_ms,
            within_medical_response_limit = within_medical_limit,
            emergency_response_requirement_ms = emergency_shutdown_time_ms (safety_constraints self4),
            all_fields_deactivated = True,
            positive_energy_maintained = True,
            causality_preserved = True,
            biological_safety_secured = True,
            system_safe_state = True \<rparr>))"

subsection \<open>Status report\<close>

record report_field_metrics =
  field_strength_tesla :: real
  energy_density_joules_m3 :: real
  positive_energy_compliance :: real
  causality_preservation :: real
  biological_safety_factor :: real
  lqg_enhancement_factor :: real

record report_safety_constraints =
  max_field_strength_tesla :: real
  max_energy_density_joules_m3 :: real
  emergency_shutdown_time_ms :: real
  biological_protection_factor :: real

record lqg_parameters =
  polymer_scale_mu :: real
  gamma_immirzi :: real
  energy_reduction_factor :: real
  polymer_length_scale :: real

record medical_certification =
  positive_energy_guaranteed :: bool
  no_exotic_matter :: bool
  medical_grade_validated :: bool
  emergency_protocols_ready :: bool
  biological_protection_active :: bool

record status_report =
  timestamp :: string
  system_status :: string
  safety_level :: string
  field_metrics :: report_field_metrics
  safety_validation :: validation_results
  safety_constraints :: report_safety_constraints
  lqg_parameters :: lqg_parameters
  medical_certification :: medical_certification

text \<open>The argument \<open>now\<close> is the string \<^verbatim>\<open>time.strftime\<close> returns. The method assigns no
  attribute of the controller, so the state it leaves is the state it was called in; an
  exception of the validator propagates.\<close>

definition get_safety_status_report ::
  "controller \<Rightarrow> string \<Rightarrow> controller \<times> (py_error + status_report)" where
  "get_safety_status_report self now =
     (let fm = controller.field_metrics self;
          c = controller.safety_constraints self
      in case validate_medical_safety self fm of
           Inl e \<Rightarrow> (self, Inl e)
         | Inr validation \<Rightarrow>
             (self,
              Inr \<lparr> timestamp = now,
                    system_status =
                      (if emergency_stop self then ''EMERGENCY_STOPPED''
                       else if field_active self then ''ACTIVE'' else ''STANDBY''),
                    safety_level = level_value (controller.safety_level self),
                    field_metrics =
                      \<lparr> field_strength_tesla = GravitonFieldMetrics.field_strength_tesla fm,
                        energy_density_joules_m3 = GravitonFieldMetrics.energy_density_joules_m3 fm,
                        positive_energy_compliance =
                          GravitonFieldMetrics.positive_energy_compliance fm,
                        causality_preservation = GravitonFieldMetrics.causality_preservation fm,
                        biological_safety_factor = GravitonFieldMetrics.biological_safety_factor fm,
                        lqg_enhancement_factor = GravitonFieldMetrics.lqg_enhancement_factor fm \<rparr>,
                    safety_validation = validation,
                    safety_constraints =
                      \<lparr> max_field_strength_tesla =
                          GravitonSafetyConstraints.max_field_strength_tesla c,
                        max_energy_density_joules_m3 =
                          GravitonSafetyConstraints.max_energy_density_joules_m3 c,
                        emergency_shutdown_time_ms =
                          GravitonSafetyConstraints.emergency_shutdown_time_ms c,
                        biological_protection_factor =
                          GravitonSafetyConstraints.biological_protection_factor c \<rparr>,
                    lqg_parameters =
                      \<lparr> polymer_scale_mu = controller.polymer_scale_mu self,
                        gamma_immirzi = controller.gamma_immirzi self,
                        energy_reduction_factor = lqg_energy_reduction self,
                        polymer_length_scale = controller.polymer_length_scale self \<rparr>,
                    medical_certification =
                      \<lparr> positive_energy_guaranteed =
                          (GravitonFieldMetrics.positive_energy_compliance fm \<ge> 999 / 1000),
                        no_exotic_matter = True,
                        medical_grade_validated = safe_for_medical_use validation,
                        emergency_protocols_ready = emergency_response_ready fm,
                        biological_protection_active =
                          biological_protection_validated validation \<rparr> \<rparr>))"

subsection \<open>Reference inputs and the measure the specification names\<close>

text \<open>The controller the constructor builds with its default arguments.\<close>

definition default_controller :: controller where
  "default_controller = MedicalGravitonSafetyController TISSUE_STANDARD True"

text \<open>The measured reduction in the words of the specification, the squared norm of the
  classical field over the squared norm of the enhanced field; it is compared below with
  the entries of the metrics the source returns.\<close>

definition spec_measured_reduction :: "real list \<Rightarrow> real list \<Rightarrow> real" where
  "spec_measured_reduction classical_field enhanced_field =
     np_linalg_norm classical_field ^ 2 / np_linalg_norm enhanced_field ^ 2"

text \<open>The sinc of the formula in the module docstring, \<open>G + sinc(pi mu) * Delta G\<close>: the
  unnormalised \<open>sin x / x\<close>, so that \<open>sinc(pi mu)\<close> is \<open>sin (pi mu) / (pi mu)\<close>. It is compared
  below with the factor the source computes through \<^verbatim>\<open>np.sinc\<close>.\<close>

definition docstring_sinc :: "real \<Rightarrow> real" where
  "docstring_sinc x = (if x = 0 then 1 else sin x / x)"

section \<open>Properties\<close>

subsection \<open>Safety profiles\<close>

lemma max_field_tesla_pos: "0 < max_field_tesla l"
  by (cases l) simp_all

lemma max_energy_density_pos: "0 < max_energy_density l"
  by (cases l) simp_all

text \<open>
  C9. Taking the six safety levels from the most to the least conservative, the configured
  maximum field strength increases strictly from each level to the next, and the emergency
  response budget is 50 ms for every level.
\<close>

theorem profiles_strictly_increasing_and_budget_constant:
  "GravitonSafetyConstraints.max_field_strength_tesla (initialize_safety_constraints NEURAL_ULTRA_SAFE)
     < GravitonSafetyConstraints.max_field_strength_tesla (initialize_safety_constraints VASCULAR_SAFE)
   \<and> GravitonSafetyConstraints.max_field_strength_tesla (initialize_safety_constraints VASCULAR_SAFE)
     < GravitonSafetyConstraints.max_field_strength_tesla (initialize_safety_constraints CELLULAR_SAFE)
   \<and> GravitonSafetyConstraints.max_field_strength_tesla (initialize_safety_constraints CELLULAR_SAFE)
     < GravitonSafetyConstraints.max_field_strength_tesla (initialize_safety_constraints TISSUE_STANDARD)
   \<and> GravitonSafetyConstraints.max_field_strength_tesla (initialize_safety_constraints TISSUE_STANDARD)
     < GravitonSafetyConstraints.max_field_strength_tesla (initialize_safety_constraints ORGAN_LEVEL)
   \<and> GravitonSafetyConstraints.max_field_strength_tesla (initialize_safety_constraints ORGAN_LEVEL)
     < GravitonSafetyConstraints.max_field_strength_tesla (initialize_safety_constraints SURGICAL_TOOLS)
   \<and> sorted_wrt (<)
        (map (\<lambda>l. GravitonSafetyConstraints.max_field_strength_tesla (initialize_safety_constraints l))
             safety_levels)
   \<and> GravitonSafetyConstraints.emergency_shutdown_time_ms (initialize_safety_constraints level) = 50
   \<and> GravitonSafetyConstraints.emergency_shutdown_time_ms
        (controller.safety_constraints (MedicalGravitonSafetyController level enable)) = 50"
  by (simp add: initialize_safety_constraints_def safety_levels_def
      MedicalGravitonSafetyController_def)

subsection \<open>Safety validation\<close>

lemma validate_table_returns:
  "controller.safety_constraints self = initialize_safety_constraints level \<Longrightarrow>
   \<exists>v. validate_medical_safety self m = Inr v"
  using max_field_tesla_pos [of level] max_energy_density_pos [of level]
  by (simp add: validate_medical_safety_def py_truediv_def initialize_safety_constraints_def Let_def)

text \<open>
  C1. For a controller whose constraints come from the table of any safety level and for
  every metrics snapshot, the validator returns a result, and that result has
  \<open>emergency_action_required\<close> set exactly when the field-strength ratio exceeds 10, or the
  positive-energy compliance is below 1.0, or the causality preservation is below 0.995.
  The energy-density ratio does not occur in that condition; it is recorded as a violation
  entry exactly when it exceeds 1.
\<close>

theorem validate_emergency_iff:
  "\<exists>r. validate_medical_safety
          (self\<lparr> controller.safety_constraints := initialize_safety_constraints level \<rparr>) m = Inr r
     \<and> emergency_action_required r =
         (GravitonFieldMetrics.field_strength_tesla m
            / GravitonSafetyConstraints.max_field_strength_tesla (initialize_safety_constraints level) > 10
          \<or> GravitonFieldMetrics.positive_energy_compliance m < 1
          \<or> GravitonFieldMetrics.causality_preservation m < 995 / 1000)
     \<and> (Energy_density_exceeds_limit
           (GravitonFieldMetrics.energy_density_joules_m3 m
              / GravitonSafetyConstraints.max_energy_density_joules_m3 (initialize_safety_constraints level))
         \<in> set (safety_violations r))
        = (GravitonFieldMetrics.energy_density_joules_m3 m
             / GravitonSafetyConstraints.max_energy_density_joules_m3 (initialize_safety_constraints level) > 1)"
  using max_field_tesla_pos[of level] max_energy_density_pos[of level]
  by (auto simp: validate_medical_safety_def py_truediv_def initialize_safety_constraints_def Let_def
      check_field_strength_def check_energy_density_def check_positive_energy_def check_causality_def
      initial_validation_results_def pos_less_divide_eq)

text \<open>At the default controller, a snapshot whose only excess is an energy density of twice
  the limit is given a violation entry and no emergency.\<close>

theorem validate_emergency_iff_witness:
  "\<exists>r. validate_medical_safety (MedicalGravitonSafetyController TISSUE_STANDARD True)
          (default_GravitonFieldMetrics\<lparr> GravitonFieldMetrics.energy_density_joules_m3 := 2 / 10 ^ 24 \<rparr>) = Inr r
     \<and> \<not> emergency_action_required r
     \<and> Energy_density_exceeds_limit 2 \<in> set (safety_violations r)"
  using validate_emergency_iff [where self = "MedicalGravitonSafetyController TISSUE_STANDARD True"
      and level = TISSUE_STANDARD and m = "default_GravitonFieldMetrics\<lparr> GravitonFieldMetrics.energy_density_joules_m3 := 2 / 10 ^ 24 \<rparr>"]
  by (simp add: MedicalGravitonSafetyController_def default_GravitonFieldMetrics_def
      initialize_safety_constraints_def)

subsection \<open>Positive-energy constraint enforcement\<close>

lemma const_G_pos: "0 < const_G"
  by (simp add: const_G_def)

lemma T_00_compute:
  "T_00 (compute_stress_energy_tensor cfg)
     = map (\<lambda>t. 1 / 2 * frobenius_norm t ^ 2 / (8 * pi * const_G)) cfg"
  by (simp add: T_00_def compute_stress_energy_tensor_def local_stress_energy_def Let_def)

lemma energy_density_nonneg:
  "e \<in> set (T_00 (compute_stress_energy_tensor cfg)) \<Longrightarrow> 0 \<le> e"
  using const_G_pos by (auto simp: T_00_compute)

lemma energy_never_negative:
  "\<forall>e\<in>set (T_00 (compute_stress_energy_tensor cfg)). \<not> e < 0"
proof
  fix e
  assume "e \<in> set (T_00 (compute_stress_energy_tensor cfg))"
  then have "0 \<le> e" by (rule energy_density_nonneg)
  then show "\<not> e < 0" by simp
qed

lemma np_min_nonempty: "xs \<noteq> [] \<Longrightarrow> np_min xs = Inr (Min (set xs))"
  by (simp add: np_min_def)

lemma np_min_empty: "np_min [] = Inl ValueError"
  by (simp add: np_min_def)

lemma Min_nonneg_iff: "xs \<noteq> [] \<Longrightarrow> (0 \<le> Min (set xs)) = (\<forall>e\<in>set xs. (0::real) \<le> e)"
  by simp

lemma count_where_none: "(\<forall>e\<in>set xs. \<not> P e) \<Longrightarrow> count_where P xs = 0"
  by (simp add: count_where_def)

lemma count_where_all: "(\<forall>e\<in>set xs. P e) \<Longrightarrow> count_where P xs = length xs"
  by (simp add: count_where_def)

text \<open>On a grid without points the minimum raises, and so does the enforcement.\<close>

lemma enforce_empty_grid: "enforce_positive_energy_constraint [] = Inl ValueError"
  by (simp add: enforce_positive_energy_constraint_def compute_stress_energy_tensor_def T_00_def
      np_min_empty)

lemma enforce_no_negative:
  assumes ne: "cfg \<noteq> []"
    and nn: "\<forall>e\<in>set (T_00 (compute_stress_energy_tensor cfg)). \<not> e < 0"
  shows "enforce_positive_energy_constraint cfg =
     Inr (cfg,
          \<lparr> min_energy_density = Min (set (T_00 (compute_stress_energy_tensor cfg))),
            positive_energy_satisfied = True,
            constraint_violation_points = 0,
            total_field_points = length cfg,
            compliance_ratio = 1,
            projection_applied = False,
            safe_min_energy_density = None,
            safe_compliance_ratio = None \<rparr>)"
proof -
  let ?ed = "T_00 (compute_stress_energy_tensor cfg)"
  have ne': "?ed \<noteq> []" using ne by (simp add: T_00_compute)
  have len: "length ?ed = length cfg" by (simp add: T_00_compute)
  have all: "\<forall>e\<in>set ?ed. 0 \<le> e" using nn by (simp add: not_less)
  have min: "0 \<le> Min (set ?ed)" using all ne' by (simp add: Min_nonneg_iff)
  have c0: "count_where (\<lambda>e. e < 0) ?ed = 0" using nn by (rule count_where_none)
  have c1: "count_where (\<lambda>e. 0 \<le> e) ?ed = length cfg"
    using count_where_all[of ?ed "\<lambda>e. 0 \<le> e"] all len by simp
  show ?thesis
    unfolding enforce_positive_energy_constraint_def Let_def
    using ne ne' min c0 c1 len by (simp add: np_min_nonempty del: Min_ge_iff)
qed

lemma project_identity:
  "project_to_positive_energy cfg = Inr cfg"
proof -
  have "\<not> list_ex (\<lambda>b. b) (map (\<lambda>e. e < 0) (T_00 (compute_stress_energy_tensor cfg)))"
    using energy_never_negative [of cfg] by (simp add: list_ex_iff)
  then show ?thesis by (simp add: project_to_positive_energy_def Let_def)
qed

text \<open>
  C3. For every field configuration over a grid with at least one point, the enforcement
  returns a configuration, and the energy density of the returned configuration (the
  \<open>T_00\<close> component of its stress-energy tensor) is at least 0 at every grid point.
\<close>

theorem enforce_result_energy_nonneg:
  assumes "field_configuration \<noteq> []"
  shows "\<exists>safe_configuration metrics.
           enforce_positive_energy_constraint field_configuration = Inr (safe_configuration, metrics)
         \<and> length (T_00 (compute_stress_energy_tensor safe_configuration)) = length field_configuration
         \<and> (\<forall>e\<in>set (T_00 (compute_stress_energy_tensor safe_configuration)). 0 \<le> e)"
proof -
  from enforce_no_negative [OF assms energy_never_negative]
  obtain metrics where
    "enforce_positive_energy_constraint field_configuration = Inr (field_configuration, metrics)"
    by blast
  moreover have "length (T_00 (compute_stress_energy_tensor field_configuration))
      = length field_configuration"
    by (simp add: T_00_compute)
  moreover have "\<forall>e\<in>set (T_00 (compute_stress_energy_tensor field_configuration)). 0 \<le> e"
    by (blast intro: energy_density_nonneg)
  ultimately show ?thesis by blast
qed

text \<open>A grid of two points, the first with one negative field component.\<close>

theorem enforce_result_energy_nonneg_witness:
  "[[[- 1 / 10 ^ 14, 0, 0, 0], [0, 0, 0, 0], [0, 0, 0, 0], [0, 0, 0, 0]], zeros_4x4] \<noteq> []
   \<and> (\<exists>safe_configuration metrics.
         enforce_positive_energy_constraint
           [[[- 1 / 10 ^ 14, 0, 0, 0], [0, 0, 0, 0], [0, 0, 0, 0], [0, 0, 0, 0]], zeros_4x4]
           = Inr (safe_configuration, metrics)
       \<and> (\<forall>e\<in>set (T_00 (compute_stress_energy_tensor safe_configuration)). 0 \<le> e))"
  using enforce_result_energy_nonneg
    [of "[[[- 1 / 10 ^ 14, 0, 0, 0], [0, 0, 0, 0], [0, 0, 0, 0], [0, 0, 0, 0]], zeros_4x4]"]
  by auto

text \<open>
  C4. For every real-valued field configuration over a grid with at least one point, the
  energy density computed inside the enforcement is half the squared norm of the local
  tensor over \<open>8 pi G\<close>, which is nonnegative at every grid point. Hence the violation count
  is 0, the reported compliance ratio is 1, the minimum is not negative so the correction
  branch is not taken, the projection itself would change nothing, and the enforcement
  returns its input unchanged with \<open>projection_applied\<close> false.
\<close>

theorem enforce_is_identity_on_real_fields:
  assumes "field_configuration \<noteq> []"
  shows "T_00 (compute_stress_energy_tensor field_configuration)
           = map (\<lambda>t. 1 / 2 * frobenius_norm t ^ 2 / (8 * pi * const_G)) field_configuration
     \<and> (\<forall>e\<in>set (T_00 (compute_stress_energy_tensor field_configuration)). 0 \<le> e)
     \<and> (\<exists>metrics.
           enforce_positive_energy_constraint field_configuration = Inr (field_configuration, metrics)
         \<and> constraint_violation_points metrics = 0
         \<and> compliance_ratio metrics = 1
         \<and> \<not> min_energy_density metrics < 0
         \<and> projection_applied metrics = False)
     \<and> project_to_positive_energy field_configuration = Inr field_configuration"
proof -
  let ?ed = "T_00 (compute_stress_energy_tensor field_configuration)"
  have ne: "?ed \<noteq> []" using assms by (simp add: T_00_compute)
  have all: "\<forall>e\<in>set ?ed. 0 \<le> e" by (blast intro: energy_density_nonneg)
  have min: "\<not> Min (set ?ed) < 0" using all ne by (simp add: not_less)
  show ?thesis
    using enforce_no_negative [OF assms energy_never_negative] all min
    by (simp add: T_00_compute project_identity)
qed

text \<open>A grid of one point whose tensor has a positive and a negative component.\<close>

theorem enforce_is_identity_on_real_fields_witness:
  "[[[3, 0, 0, 0], [0, - 4, 0, 0], [0, 0, 0, 0], [0, 0, 0, 0]]] \<noteq> []
   \<and> (\<exists>metrics.
         enforce_positive_energy_constraint [[[3, 0, 0, 0], [0, - 4, 0, 0], [0, 0, 0, 0], [0, 0, 0, 0]]]
           = Inr ([[[3, 0, 0, 0], [0, - 4, 0, 0], [0, 0, 0, 0], [0, 0, 0, 0]]], metrics)
       \<and> constraint_violation_points metrics = 0
       \<and> compliance_ratio metrics = 1
       \<and> projection_applied metrics = False)"
  using enforce_is_identity_on_real_fields
    [of "[[[3, 0, 0, 0], [0, - 4, 0, 0], [0, 0, 0, 0], [0, 0, 0, 0]]]"]
  by auto

text \<open>
  C7. For every field configuration over a grid with at least one point in which no grid
  point has a negative energy density, the enforcement returns the configuration unchanged,
  and its metrics have \<open>projection_applied\<close> false.
\<close>

theorem enforce_unchanged_without_negative_energy:
  assumes "field_configuration \<noteq> []"
    and "\<forall>e\<in>set (T_00 (compute_stress_energy_tensor field_configuration)). \<not> e < 0"
  shows "\<exists>metrics.
           enforce_positive_energy_constraint field_configuration = Inr (field_configuration, metrics)
         \<and> projection_applied metrics = False"
  using enforce_no_negative [OF assms] by simp

text \<open>A grid of two points where the field vanishes.\<close>

theorem enforce_unchanged_without_negative_energy_witness:
  "[zeros_4x4, zeros_4x4] \<noteq> []
   \<and> T_00 (compute_stress_energy_tensor [zeros_4x4, zeros_4x4]) = [0, 0]
   \<and> (\<exists>metrics.
         enforce_positive_energy_constraint [zeros_4x4, zeros_4x4] = Inr ([zeros_4x4, zeros_4x4], metrics)
       \<and> projection_applied metrics = False)"
proof -
  have z: "frobenius_norm zeros_4x4 = 0"
    by (simp add: frobenius_norm_def zeros_4x4_def numeral_eq_Suc)
  have e: "T_00 (compute_stress_energy_tensor [zeros_4x4, zeros_4x4]) = [0, 0]"
    by (simp add: T_00_compute z)
  have h: "\<forall>e\<in>set (T_00 (compute_stress_energy_tensor [zeros_4x4, zeros_4x4])). \<not> e < 0"
    by (simp add: e)
  show ?thesis using enforce_unchanged_without_negative_energy [OF _ h] e by simp
qed

subsection \<open>Numerical bounds for the sine and for pi\<close>

lemma sum_unroll_9:
  fixes f :: "nat \<Rightarrow> real"
  shows "(\<Sum>m<9. f m) = f 0 + f 1 + f 2 + f 3 + f 4 + f 5 + f 6 + f 7 + f 8"
  by (simp add: lessThan_nat_numeral lessThan_Suc)

lemma sum_unroll_15:
  fixes f :: "nat \<Rightarrow> real"
  shows "(\<Sum>m<15. f m) = f 0 + f 1 + f 2 + f 3 + f 4 + f 5 + f 6 + f 7 + f 8
           + f 9 + f 10 + f 11 + f 12 + f 13 + f 14"
  by (simp add: lessThan_nat_numeral lessThan_Suc)

lemma sin_coeff_vals:
  "sin_coeff 0 = 0" "sin_coeff 1 = 1" "sin_coeff 2 = 0" "sin_coeff 3 = - 1 / 6"
  "sin_coeff 4 = 0" "sin_coeff 5 = 1 / 120" "sin_coeff 6 = 0" "sin_coeff 7 = - 1 / 5040"
  "sin_coeff 8 = 0" "sin_coeff 9 = 1 / 362880" "sin_coeff 10 = 0"
  "sin_coeff 11 = - 1 / 39916800" "sin_coeff 12 = 0" "sin_coeff 13 = 1 / 6227020800"
  "sin_coeff 14 = 0" "sin_coeff (Suc 0) = 1"
  by (simp_all add: sin_coeff_def fact_numeral)

lemma fact_9: "fact 9 = (362880 :: real)"
  by (simp add: fact_numeral)

lemma fact_15: "fact 15 = (1307674368000 :: real)"
  by (simp add: fact_numeral)

lemma sin_approx_9:
  fixes x :: real
  shows "\<bar>sin x - (x - x ^ 3 / 6 + x ^ 5 / 120 - x ^ 7 / 5040)\<bar> \<le> \<bar>x\<bar> ^ 9 / 362880"
proof -
  have "(\<Sum>m<9. sin_coeff m * x ^ m) = x - x ^ 3 / 6 + x ^ 5 / 120 - x ^ 7 / 5040"
    by (simp add: sum_unroll_9 sin_coeff_vals)
  moreover have "inverse (fact 9 :: real) * \<bar>x\<bar> ^ 9 = \<bar>x\<bar> ^ 9 / 362880"
    by (simp only: fact_9 divide_inverse mult.commute)
  ultimately show ?thesis using Maclaurin_sin_bound [of x 9] by (simp only:)
qed

lemma sin_approx_15:
  fixes x :: real
  shows "\<bar>sin x - (x - x ^ 3 / 6 + x ^ 5 / 120 - x ^ 7 / 5040 + x ^ 9 / 362880
       - x ^ 11 / 39916800 + x ^ 13 / 6227020800)\<bar> \<le> \<bar>x\<bar> ^ 15 / 1307674368000"
proof -
  have "(\<Sum>m<15. sin_coeff m * x ^ m) = x - x ^ 3 / 6 + x ^ 5 / 120 - x ^ 7 / 5040
      + x ^ 9 / 362880 - x ^ 11 / 39916800 + x ^ 13 / 6227020800"
    by (simp add: sum_unroll_15 sin_coeff_vals)
  moreover have "inverse (fact 15 :: real) * \<bar>x\<bar> ^ 15 = \<bar>x\<bar> ^ 15 / 1307674368000"
    by (simp only: fact_15 divide_inverse mult.commute)
  ultimately show ?thesis using Maclaurin_sin_bound [of x 15] by (simp only:)
qed

lemma abs_diff_pos: "\<bar>s - p\<bar> \<le> e \<Longrightarrow> e < p \<Longrightarrow> 0 < s" for s :: real
  by linarith

lemma abs_diff_neg: "\<bar>s - p\<bar> \<le> e \<Longrightarrow> p < - e \<Longrightarrow> s < 0" for s :: real
  by linarith

lemma sin_3141_pos: "0 < sin (3141 / 1000 :: real)"
  by (rule abs_diff_pos [OF sin_approx_15]) (simp add: power_divide)

lemma sin_3142_neg: "sin (3142 / 1000 :: real) < 0"
  by (rule abs_diff_neg [OF sin_approx_15]) (simp add: power_divide)

lemma pi_gt_3141: "3141 / 1000 < pi"
proof (rule ccontr)
  assume "\<not> 3141 / 1000 < pi"
  then have "pi \<le> 3141 / 1000" by simp
  moreover have "(3141 / 1000 :: real) < 2 * pi" using pi_ge_two by simp
  ultimately have "sin (3141 / 1000 :: real) \<le> 0" by (rule sin_le_zero)
  with sin_3141_pos show False by simp
qed

lemma pi_lt_3142: "pi < 3142 / 1000"
proof (rule ccontr)
  assume "\<not> pi < 3142 / 1000"
  then have "3142 / 1000 \<le> pi" by simp
  then have "0 \<le> sin (3142 / 1000 :: real)" by (intro sin_ge_zero) simp_all
  with sin_3142_neg show False by simp
qed

lemma pi_sq_bounds: "3141 / 1000 * (3141 / 1000) < pi * pi" "pi * pi < 3142 / 1000 * (3142 / 1000)"
proof -
  show "3141 / 1000 * (3141 / 1000) < pi * pi"
    by (rule mult_strict_mono [OF pi_gt_3141 pi_gt_3141]) simp_all
  show "pi * pi < 3142 / 1000 * (3142 / 1000)"
    by (rule mult_strict_mono [OF pi_lt_3142 pi_lt_3142]) simp_all
qed

lemma sin_14798_lower: "9955 / 10000 \<le> sin (14798 / 10000 :: real)"
proof -
  have "\<bar>sin (14798 / 10000 :: real) - (14798 / 10000 - (14798 / 10000) ^ 3 / 6
      + (14798 / 10000) ^ 5 / 120 - (14798 / 10000) ^ 7 / 5040)\<bar>
      \<le> \<bar>14798 / 10000\<bar> ^ 9 / 362880"
    by (rule sin_approx_9)
  then have "(14798 / 10000 - (14798 / 10000) ^ 3 / 6
      + (14798 / 10000) ^ 5 / 120 - (14798 / 10000) ^ 7 / 5040) - \<bar>14798 / 10000\<bar> ^ 9 / 362880
      \<le> sin (14798 / 10000 :: real)"
    by linarith
  moreover have "(9955 / 10000 :: real) \<le> (14798 / 10000 - (14798 / 10000) ^ 3 / 6
      + (14798 / 10000) ^ 5 / 120 - (14798 / 10000) ^ 7 / 5040) - \<bar>14798 / 10000\<bar> ^ 9 / 362880"
    by (simp add: power_divide)
  ultimately show ?thesis by linarith
qed

lemma sin_14809_upper: "sin (14809 / 10000 :: real) \<le> 9961 / 10000"
proof -
  have "\<bar>sin (14809 / 10000 :: real) - (14809 / 10000 - (14809 / 10000) ^ 3 / 6
      + (14809 / 10000) ^ 5 / 120 - (14809 / 10000) ^ 7 / 5040)\<bar>
      \<le> \<bar>14809 / 10000\<bar> ^ 9 / 362880"
    by (rule sin_approx_9)
  then have "sin (14809 / 10000 :: real) \<le> (14809 / 10000 - (14809 / 10000) ^ 3 / 6
      + (14809 / 10000) ^ 5 / 120 - (14809 / 10000) ^ 7 / 5040) + \<bar>14809 / 10000\<bar> ^ 9 / 362880"
    by linarith
  moreover have "(14809 / 10000 - (14809 / 10000) ^ 3 / 6
      + (14809 / 10000) ^ 5 / 120 - (14809 / 10000) ^ 7 / 5040) + \<bar>14809 / 10000\<bar> ^ 9 / 362880
      \<le> (9961 / 10000 :: real)"
    by (simp add: power_divide)
  ultimately show ?thesis by linarith
qed

text \<open>The sinc factor at the polymer scale 0.15: the argument of the sine is \<open>0.15 pi\<^sup>2\<close>,
  because \<^verbatim>\<open>np.sinc\<close> multiplies its argument \<open>0.15 pi\<close> by pi once more.\<close>

lemma sinc_default_bounds:
  "6722 / 10000 \<le> np_sinc (pi * (15 / 100))" "np_sinc (pi * (15 / 100)) \<le> 6732 / 10000"
proof -
  define y where "y = pi * (pi * (15 / 100))"
  have y_lo: "14798 / 10000 < y" and y_hi: "y < 14809 / 10000"
    using pi_sq_bounds by (simp_all add: y_def)
  have half: "(14809 / 10000 :: real) \<le> pi / 2" using pi_gt_3141 by simp
  have "sin (14798 / 10000) \<le> sin y"
    using y_lo y_hi half by (intro sin_monotone_2pi_le) simp_all
  with sin_14798_lower have sin_lo: "9955 / 10000 \<le> sin y" by linarith
  have "sin y \<le> sin (14809 / 10000)"
    using y_lo y_hi half pi_gt_3141 by (intro sin_monotone_2pi_le) simp_all
  with sin_14809_upper have sin_hi: "sin y \<le> 9961 / 10000" by linarith
  have pos: "0 < y" using y_lo by simp
  have eq: "np_sinc (pi * (15 / 100)) = sin y / y"
    by (simp add: np_sinc_def y_def)
  have "6722 / 10000 * y \<le> sin y" using y_hi sin_lo by simp
  then show "6722 / 10000 \<le> np_sinc (pi * (15 / 100))"
    unfolding eq using pos by (simp add: pos_le_divide_eq)
  have "sin y \<le> 6732 / 10000 * y" using y_lo sin_hi by simp
  then show "np_sinc (pi * (15 / 100)) \<le> 6732 / 10000"
    unfolding eq using pos by (simp add: pos_divide_le_eq)
qed

lemma default_multiplier_bounds:
  "1511 / 10000 \<le> np_sinc (pi * (15 / 100)) * (2375 / 10000 / (1 + (2375 / 10000) ^ 2))"
  "np_sinc (pi * (15 / 100)) * (2375 / 10000 / (1 + (2375 / 10000) ^ 2)) \<le> 1514 / 10000"
  using sinc_default_bounds by (simp_all add: power_divide)

lemma sin_47115_lower: "4539 / 10000 \<le> sin (47115 / 100000 :: real)"
proof -
  have "\<bar>sin (47115 / 100000 :: real) - (47115 / 100000 - (47115 / 100000) ^ 3 / 6
      + (47115 / 100000) ^ 5 / 120 - (47115 / 100000) ^ 7 / 5040)\<bar>
      \<le> \<bar>47115 / 100000\<bar> ^ 9 / 362880"
    by (rule sin_approx_9)
  then have "(47115 / 100000 - (47115 / 100000) ^ 3 / 6
      + (47115 / 100000) ^ 5 / 120 - (47115 / 100000) ^ 7 / 5040) - \<bar>47115 / 100000\<bar> ^ 9 / 362880
      \<le> sin (47115 / 100000 :: real)"
    by linarith
  moreover have "(4539 / 10000 :: real) \<le> (47115 / 100000 - (47115 / 100000) ^ 3 / 6
      + (47115 / 100000) ^ 5 / 120 - (47115 / 100000) ^ 7 / 5040) - \<bar>47115 / 100000\<bar> ^ 9 / 362880"
    by (simp add: power_divide)
  ultimately show ?thesis by linarith
qed

lemma sin_4713_upper: "sin (4713 / 10000 :: real) \<le> 45405 / 100000"
proof -
  have "\<bar>sin (4713 / 10000 :: real) - (4713 / 10000 - (4713 / 10000) ^ 3 / 6
      + (4713 / 10000) ^ 5 / 120 - (4713 / 10000) ^ 7 / 5040)\<bar>
      \<le> \<bar>4713 / 10000\<bar> ^ 9 / 362880"
    by (rule sin_approx_9)
  then have "sin (4713 / 10000 :: real) \<le> (4713 / 10000 - (4713 / 10000) ^ 3 / 6
      + (4713 / 10000) ^ 5 / 120 - (4713 / 10000) ^ 7 / 5040) + \<bar>4713 / 10000\<bar> ^ 9 / 362880"
    by linarith
  moreover have "(4713 / 10000 - (4713 / 10000) ^ 3 / 6
      + (4713 / 10000) ^ 5 / 120 - (4713 / 10000) ^ 7 / 5040) + \<bar>4713 / 10000\<bar> ^ 9 / 362880
      \<le> (45405 / 100000 :: real)"
    by (simp add: power_divide)
  ultimately show ?thesis by linarith
qed

text \<open>The documented factor at the polymer scale 0.15: the sine is taken at \<open>0.15 pi\<close>.\<close>

lemma docstring_sinc_default_bounds:
  "9630 / 10000 \<le> docstring_sinc (pi * (15 / 100))" "docstring_sinc (pi * (15 / 100)) \<le> 9638 / 10000"
proof -
  define u where "u = pi * (15 / 100)"
  have u_lo: "47115 / 100000 < u" and u_hi: "u < 4713 / 10000"
    using pi_gt_3141 pi_lt_3142 by (simp_all add: u_def)
  have half: "(4713 / 10000 :: real) \<le> pi / 2" using pi_gt_3141 by simp
  have "sin (47115 / 100000) \<le> sin u"
    using u_lo u_hi half by (intro sin_monotone_2pi_le) simp_all
  with sin_47115_lower have sin_lo: "4539 / 10000 \<le> sin u" by linarith
  have "sin u \<le> sin (4713 / 10000)"
    using u_lo u_hi half pi_gt_3141 by (intro sin_monotone_2pi_le) simp_all
  with sin_4713_upper have sin_hi: "sin u \<le> 45405 / 100000" by linarith
  have pos: "0 < u" using u_lo by simp
  have eq: "docstring_sinc (pi * (15 / 100)) = sin u / u"
    using pos by (simp add: docstring_sinc_def u_def)
  have "9630 / 10000 * u \<le> sin u" using u_hi sin_lo by simp
  then show "9630 / 10000 \<le> docstring_sinc (pi * (15 / 100))"
    unfolding eq using pos by (simp add: pos_le_divide_eq)
  have "sin u \<le> 9638 / 10000 * u" using u_lo sin_hi by simp
  then show "docstring_sinc (pi * (15 / 100)) \<le> 9638 / 10000"
    unfolding eq using pos by (simp add: pos_divide_le_eq)
qed

lemma docstring_multiplier_bounds:
  "2164 / 10000 \<le> docstring_sinc (pi * (15 / 100)) * (2375 / 10000 / (1 + (2375 / 10000) ^ 2))"
  "docstring_sinc (pi * (15 / 100)) * (2375 / 10000 / (1 + (2375 / 10000) ^ 2)) \<le> 2167 / 10000"
  using docstring_sinc_default_bounds by (simp_all add: power_divide)

subsection \<open>Polymer enhancement\<close>

lemma sum_sq_scale:
  fixes c :: real
  shows "sum_list (map (\<lambda>x. (c * x) ^ 2) xs) = c ^ 2 * sum_list (map (\<lambda>x. x ^ 2) xs)"
  by (induction xs) (simp_all add: power_mult_distrib distrib_left)

lemma np_linalg_norm_scale:
  "np_linalg_norm (map (\<lambda>x. c * x) xs) = \<bar>c\<bar> * np_linalg_norm xs"
  by (simp add: np_linalg_norm_def o_def sum_sq_scale real_sqrt_mult)

lemma np_linalg_norm_nonneg: "0 \<le> np_linalg_norm xs"
proof -
  have "0 \<le> sum_list (map (\<lambda>x. \<bar>x\<bar> ^ 2) xs)" by (induction xs) simp_all
  then show ?thesis by (simp add: np_linalg_norm_def)
qed

lemma np_linalg_norm_unit: "np_linalg_norm [1] = 1"
  by (simp add: np_linalg_norm_def)

lemma abs_np_sinc_le_1: "\<bar>np_sinc x\<bar> \<le> 1"
proof (cases "x = 0")
  case True
  then show ?thesis by (simp add: np_sinc_def)
next
  case False
  then have nz: "pi * x \<noteq> 0" by simp
  have "\<bar>sin (pi * x)\<bar> \<le> \<bar>pi * x\<bar>" by (rule abs_sin_x_le_abs_x)
  then have "\<bar>sin (pi * x)\<bar> / \<bar>pi * x\<bar> \<le> 1" using nz by (simp add: divide_le_eq_1)
  then show ?thesis using False by (simp add: np_sinc_def abs_divide)
qed

lemma abs_immirzi_le_half: "\<bar>g / (1 + g ^ 2)\<bar> \<le> 1 / 2" for g :: real
proof -
  have pos: "0 < 1 + g ^ 2" by (simp add: add_pos_nonneg)
  have "0 \<le> (1 - \<bar>g\<bar>) ^ 2" by simp
  then have "2 * \<bar>g\<bar> \<le> 1 + g ^ 2" by (simp add: power2_diff)
  then have "\<bar>g\<bar> / (1 + g ^ 2) \<le> 1 / 2" using pos by (simp add: pos_divide_le_eq)
  then show ?thesis using pos by (simp add: abs_divide)
qed

lemma abs_multiplier_le_1: "\<bar>np_sinc x * (g / (1 + g ^ 2))\<bar> \<le> 1"
proof -
  have "\<bar>np_sinc x * (g / (1 + g ^ 2))\<bar> = \<bar>np_sinc x\<bar> * \<bar>g / (1 + g ^ 2)\<bar>"
    by (simp add: abs_mult)
  also have "\<dots> \<le> 1 * (1 / 2)"
    by (intro mult_mono abs_np_sinc_le_1 abs_immirzi_le_half) simp_all
  also have "\<dots> \<le> 1" by simp
  finally show ?thesis .
qed

lemma enhanced_field_eq:
  "fst (apply_lqg_polymer_enhancement self cf) =
     map (\<lambda>x. np_sinc (pi * controller.polymer_scale_mu self)
              * (controller.gamma_immirzi self / (1 + controller.gamma_immirzi self ^ 2)) * x) cf"
  by (simp add: apply_lqg_polymer_enhancement_def Let_def)

lemma enhanced_norm_eq:
  "np_linalg_norm (fst (apply_lqg_polymer_enhancement self cf)) =
     \<bar>np_sinc (pi * controller.polymer_scale_mu self)
       * (controller.gamma_immirzi self / (1 + controller.gamma_immirzi self ^ 2))\<bar>
     * np_linalg_norm cf"
  unfolding enhanced_field_eq by (rule np_linalg_norm_scale)

lemma metrics_fields:
  "sinc_enhancement_factor (snd (apply_lqg_polymer_enhancement self cf))
     = np_sinc (pi * controller.polymer_scale_mu self)"
  "immirzi_enhancement (snd (apply_lqg_polymer_enhancement self cf))
     = controller.gamma_immirzi self / (1 + controller.gamma_immirzi self ^ 2)"
  "enhancement_metrics.energy_reduction_factor (snd (apply_lqg_polymer_enhancement self cf))
     = lqg_energy_reduction self * np_sinc (pi * controller.polymer_scale_mu self)"
  "enhancement_metrics.polymer_scale_mu (snd (apply_lqg_polymer_enhancement self cf))
     = controller.polymer_scale_mu self"
  "enhancement_metrics.gamma_immirzi (snd (apply_lqg_polymer_enhancement self cf))
     = controller.gamma_immirzi self"
  "field_strength_reduction (snd (apply_lqg_polymer_enhancement self cf))
     = np_divide (np_linalg_norm (fst (apply_lqg_polymer_enhancement self cf))) (np_linalg_norm cf)"
  by (simp_all add: apply_lqg_polymer_enhancement_def Let_def)

lemma default_controller_params:
  "controller.polymer_scale_mu default_controller = 15 / 100"
  "controller.gamma_immirzi default_controller = 2375 / 10000"
  "lqg_energy_reduction default_controller = 242 * 10 ^ 6"
  by (simp_all add: default_controller_def MedicalGravitonSafetyController_def)

lemma default_enhanced_norm:
  assumes "controller.polymer_scale_mu self = 15 / 100"
    and "controller.gamma_immirzi self = 2375 / 10000"
  shows "np_linalg_norm (fst (apply_lqg_polymer_enhancement self cf))
     = np_sinc (pi * (15 / 100)) * (2375 / 10000 / (1 + (2375 / 10000) ^ 2)) * np_linalg_norm cf"
proof -
  have "0 \<le> np_sinc (pi * (15 / 100)) * (2375 / 10000 / (1 + (2375 / 10000) ^ 2))"
    using default_multiplier_bounds(1) by linarith
  then show ?thesis by (simp only: enhanced_norm_eq assms abs_of_nonneg)
qed

text \<open>
  C8. For every classical field and every setting of the two parameters, the norm of the
  field the enhancement returns is at most the norm of the classical field, and the
  combined scalar multiplier has absolute value at most 1.
\<close>

theorem enhancement_never_increases_norm:
  "np_linalg_norm (fst (apply_lqg_polymer_enhancement self classical_field))
     \<le> np_linalg_norm classical_field
   \<and> \<bar>sinc_enhancement_factor (snd (apply_lqg_polymer_enhancement self classical_field))
       * immirzi_enhancement (snd (apply_lqg_polymer_enhancement self classical_field))\<bar> \<le> 1"
proof
  have "\<bar>np_sinc (pi * controller.polymer_scale_mu self)
       * (controller.gamma_immirzi self / (1 + controller.gamma_immirzi self ^ 2))\<bar>
     * np_linalg_norm classical_field \<le> 1 * np_linalg_norm classical_field"
    by (intro mult_right_mono abs_multiplier_le_1 np_linalg_norm_nonneg)
  then show "np_linalg_norm (fst (apply_lqg_polymer_enhancement self classical_field))
     \<le> np_linalg_norm classical_field"
    by (simp add: enhanced_norm_eq)
  show "\<bar>sinc_enhancement_factor (snd (apply_lqg_polymer_enhancement self classical_field))
       * immirzi_enhancement (snd (apply_lqg_polymer_enhancement self classical_field))\<bar> \<le> 1"
    using abs_multiplier_le_1 [of "pi * controller.polymer_scale_mu self" "controller.gamma_immirzi self"]
    by (simp add: apply_lqg_polymer_enhancement_def Let_def)
qed

text \<open>
  C2. The figures of the claim are those of the documented factor: with
  \<open>polymer_scale_mu = 0.15\<close> and \<open>gamma_immirzi = 0.2375\<close>, \<open>sinc(pi mu) = sin (pi mu) / (pi mu)\<close>
  is within 0.001 of 0.9628, and times \<open>gamma / (1 + gamma\<^sup>2)\<close> it is within 0.001 of
  0.2164. The source does not compute them. It passes \<open>pi mu\<close> to \<^verbatim>\<open>np.sinc\<close>, which
  multiplies by pi once more, so at the default controller on the unit field the sinc factor
  is \<open>sin (0.15 pi\<^sup>2) / (0.15 pi\<^sup>2)\<close>, within 0.001 of 0.6727 and not of 0.9628, and the norm of
  the enhanced field is within 0.001 of 0.1512 and not of 0.2164.
\<close>

theorem enhancement_sinc_applies_pi_twice:
  "sinc_enhancement_factor (snd (apply_lqg_polymer_enhancement default_controller [1]))
     = sin (pi * (pi * (15 / 100))) / (pi * (pi * (15 / 100)))
   \<and> \<bar>sinc_enhancement_factor (snd (apply_lqg_polymer_enhancement default_controller [1]))
        - 6727 / 10000\<bar> \<le> 1 / 1000
   \<and> \<not> \<bar>sinc_enhancement_factor (snd (apply_lqg_polymer_enhancement default_controller [1]))
        - 9628 / 10000\<bar> \<le> 1 / 1000
   \<and> np_linalg_norm [1] = 1
   \<and> \<bar>np_linalg_norm (fst (apply_lqg_polymer_enhancement default_controller [1]))
        - 1512 / 10000\<bar> \<le> 1 / 1000
   \<and> \<not> \<bar>np_linalg_norm (fst (apply_lqg_polymer_enhancement default_controller [1]))
        - 2164 / 10000\<bar> \<le> 1 / 1000
   \<and> docstring_sinc (pi * controller.polymer_scale_mu default_controller)
        = sin (pi * (15 / 100)) / (pi * (15 / 100))
   \<and> \<bar>docstring_sinc (pi * controller.polymer_scale_mu default_controller)
        - 9628 / 10000\<bar> \<le> 1 / 1000
   \<and> \<bar>docstring_sinc (pi * controller.polymer_scale_mu default_controller)
        * (controller.gamma_immirzi default_controller
           / (1 + controller.gamma_immirzi default_controller ^ 2))
        - 2164 / 10000\<bar> \<le> 1 / 1000"
proof -
  define s where "s = np_sinc (pi * (15 / 100))"
  define d where "d = docstring_sinc (pi * (15 / 100))"
  define g :: real where "g = 2375 / 10000 / (1 + (2375 / 10000) ^ 2)"
  have fs: "sinc_enhancement_factor (snd (apply_lqg_polymer_enhancement default_controller [1])) = s"
    by (simp only: metrics_fields default_controller_params s_def)
  have fn: "np_linalg_norm (fst (apply_lqg_polymer_enhancement default_controller [1])) = s * g"
    using default_enhanced_norm [OF default_controller_params(1) default_controller_params(2), of "[1]"]
    by (simp add: np_linalg_norm_unit s_def g_def)
  have fd: "docstring_sinc (pi * controller.polymer_scale_mu default_controller) = d"
    by (simp only: default_controller_params d_def)
  have fg: "controller.gamma_immirzi default_controller
      / (1 + controller.gamma_immirzi default_controller ^ 2) = g"
    by (simp only: default_controller_params g_def)
  have es: "s = sin (pi * (pi * (15 / 100))) / (pi * (pi * (15 / 100)))"
    by (simp add: s_def np_sinc_def)
  have ed: "d = sin (pi * (15 / 100)) / (pi * (15 / 100))"
    by (simp add: d_def docstring_sinc_def)
  have s_b: "6722 / 10000 \<le> s" "s \<le> 6732 / 10000"
    using sinc_default_bounds by (simp_all only: s_def)
  have m_b: "1511 / 10000 \<le> s * g" "s * g \<le> 1514 / 10000"
    using default_multiplier_bounds by (simp_all only: s_def g_def)
  have d_b: "9630 / 10000 \<le> d" "d \<le> 9638 / 10000"
    using docstring_sinc_default_bounds by (simp_all only: d_def)
  have dm_b: "2164 / 10000 \<le> d * g" "d * g \<le> 2167 / 10000"
    using docstring_multiplier_bounds by (simp_all only: d_def g_def)
  have c1: "\<bar>s - 6727 / 10000\<bar> \<le> 1 / 1000" using s_b by linarith
  have c2: "\<not> \<bar>s - 9628 / 10000\<bar> \<le> 1 / 1000" using s_b by linarith
  have c3: "\<bar>s * g - 1512 / 10000\<bar> \<le> 1 / 1000" using m_b by linarith
  have c4: "\<not> \<bar>s * g - 2164 / 10000\<bar> \<le> 1 / 1000" using m_b by linarith
  have c5: "\<bar>d - 9628 / 10000\<bar> \<le> 1 / 1000" using d_b by linarith
  have c6: "\<bar>d * g - 2164 / 10000\<bar> \<le> 1 / 1000" using dm_b by linarith
  show ?thesis
    unfolding fs fn fd fg
    using es ed c1 c2 c3 c4 c5 c6 np_linalg_norm_unit by blast
qed

text \<open>
  C5 (amended). For a classical field of nonzero norm, the metrics the enhancement returns
  expose under \<open>field_strength_reduction\<close> the measured ratio of the norm of the enhanced
  field to the norm of the classical field, which is the absolute value of the combined
  multiplier, alongside the separate theoretical reduction figure
  \<open>energy_reduction_factor\<close>, the configured nominal constant times the sinc factor.
\<close>

theorem enhancement_reports_norm_ratio:
  assumes nz: "np_linalg_norm classical_field \<noteq> 0"
  shows "field_strength_reduction (snd (apply_lqg_polymer_enhancement self classical_field))
           = Some (np_linalg_norm (fst (apply_lqg_polymer_enhancement self classical_field))
                   / np_linalg_norm classical_field)
     \<and> field_strength_reduction (snd (apply_lqg_polymer_enhancement self classical_field))
           = Some \<bar>sinc_enhancement_factor (snd (apply_lqg_polymer_enhancement self classical_field))
                   * immirzi_enhancement (snd (apply_lqg_polymer_enhancement self classical_field))\<bar>
     \<and> enhancement_metrics.energy_reduction_factor
           (snd (apply_lqg_polymer_enhancement self classical_field))
           = lqg_energy_reduction self
             * sinc_enhancement_factor (snd (apply_lqg_polymer_enhancement self classical_field))"
  using nz by (simp add: metrics_fields np_divide_def enhanced_norm_eq)

text \<open>The default controller and a field of norm 2.\<close>

theorem enhancement_reports_norm_ratio_witness:
  "np_linalg_norm [2] \<noteq> 0
   \<and> field_strength_reduction (snd (apply_lqg_polymer_enhancement default_controller [2]))
       = Some (np_linalg_norm (fst (apply_lqg_polymer_enhancement default_controller [2])) / 2)
   \<and> enhancement_metrics.energy_reduction_factor
         (snd (apply_lqg_polymer_enhancement default_controller [2]))
       = 242 * 10 ^ 6 * sinc_enhancement_factor (snd (apply_lqg_polymer_enhancement default_controller [2]))"
proof -
  have n: "np_linalg_norm [2] = 2" by (simp add: np_linalg_norm_def)
  then have nz: "np_linalg_norm [2] \<noteq> 0" by simp
  show ?thesis
    using enhancement_reports_norm_ratio [OF nz, of default_controller] n
    by (simp add: default_controller_params)
qed

text \<open>At the default controller on the unit field, none of the six entries of the returned
  metrics equals the squared norm of the classical field over the squared norm of the
  enhanced field.\<close>

theorem measured_reduction_not_among_metrics:
  "sinc_enhancement_factor (snd (apply_lqg_polymer_enhancement default_controller [1]))
     \<noteq> spec_measured_reduction [1] (fst (apply_lqg_polymer_enhancement default_controller [1]))
   \<and> immirzi_enhancement (snd (apply_lqg_polymer_enhancement default_controller [1]))
     \<noteq> spec_measured_reduction [1] (fst (apply_lqg_polymer_enhancement default_controller [1]))
   \<and> enhancement_metrics.energy_reduction_factor
       (snd (apply_lqg_polymer_enhancement default_controller [1]))
     \<noteq> spec_measured_reduction [1] (fst (apply_lqg_polymer_enhancement default_controller [1]))
   \<and> enhancement_metrics.polymer_scale_mu
       (snd (apply_lqg_polymer_enhancement default_controller [1]))
     \<noteq> spec_measured_reduction [1] (fst (apply_lqg_polymer_enhancement default_controller [1]))
   \<and> enhancement_metrics.gamma_immirzi
       (snd (apply_lqg_polymer_enhancement default_controller [1]))
     \<noteq> spec_measured_reduction [1] (fst (apply_lqg_polymer_enhancement default_controller [1]))
   \<and> field_strength_reduction (snd (apply_lqg_polymer_enhancement default_controller [1]))
     \<noteq> Some (spec_measured_reduction [1]
               (fst (apply_lqg_polymer_enhancement default_controller [1])))"
proof -
  define s where "s = np_sinc (pi * (15 / 100))"
  define g :: real where "g = 2375 / 10000 / (1 + (2375 / 10000) ^ 2)"
  define m where "m = s * g"
  define R where
    "R = spec_measured_reduction [1] (fst (apply_lqg_polymer_enhancement default_controller [1]))"
  have n: "np_linalg_norm (fst (apply_lqg_polymer_enhancement default_controller [1])) = m"
    using default_enhanced_norm [OF default_controller_params(1) default_controller_params(2), of "[1]"]
    by (simp add: np_linalg_norm_unit m_def s_def g_def)
  have R: "R = 1 / m ^ 2"
    by (simp only: R_def spec_measured_reduction_def n np_linalg_norm_unit power_one)
  have m_lo: "1 / 10 < m" and m_hi: "m < 1"
    using default_multiplier_bounds unfolding m_def s_def g_def by linarith+
  have m_pos: "0 < m" using m_lo by linarith
  have "m ^ 2 < 1 ^ 2" using m_hi m_pos by (intro power_strict_mono) simp_all
  then have sq_hi: "m ^ 2 < 1" by simp
  have "(1 / 10) ^ 2 < m ^ 2" using m_lo by (intro power_strict_mono) simp_all
  then have sq_lo: "1 / 100 < m ^ 2" by (simp add: power_divide)
  have sq_pos: "0 < m ^ 2" using m_pos by (rule zero_less_power)
  have R_lo: "1 < R" unfolding R using sq_hi sq_pos by (simp add: less_divide_eq)
  have R_hi: "R < 100" unfolding R using sq_lo sq_pos by (simp add: divide_less_eq)
  have fs: "sinc_enhancement_factor (snd (apply_lqg_polymer_enhancement default_controller [1])) = s"
    by (simp only: metrics_fields default_controller_params s_def)
  have fg: "immirzi_enhancement (snd (apply_lqg_polymer_enhancement default_controller [1])) = g"
    by (simp only: metrics_fields default_controller_params g_def)
  have fe: "enhancement_metrics.energy_reduction_factor
      (snd (apply_lqg_polymer_enhancement default_controller [1])) = 242 * 10 ^ 6 * s"
    by (simp only: metrics_fields default_controller_params s_def)
  have fmu: "enhancement_metrics.polymer_scale_mu
      (snd (apply_lqg_polymer_enhancement default_controller [1])) = 15 / 100"
    by (simp only: metrics_fields default_controller_params)
  have fga: "enhancement_metrics.gamma_immirzi
      (snd (apply_lqg_polymer_enhancement default_controller [1])) = 2375 / 10000"
    by (simp only: metrics_fields default_controller_params)
  have ff: "field_strength_reduction (snd (apply_lqg_polymer_enhancement default_controller [1]))
      = Some m"
    by (simp add: metrics_fields n np_linalg_norm_unit np_divide_def)
  have s_hi: "s < 1" using sinc_default_bounds(2) unfolding s_def by linarith
  have g_hi: "g < 1" unfolding g_def by (simp add: power_divide)
  have e_lo: "100 < 242 * 10 ^ 6 * s" using sinc_default_bounds(1) unfolding s_def by simp
  show ?thesis
    unfolding fs fg fe fmu fga ff R_def [symmetric]
    using R_lo R_hi s_hi g_hi e_lo m_hi by simp
qed

subsection \<open>Emergency shutdown\<close>

lemma fill_zero_all_zero: "list_all (\<lambda>v. v = 0) (fill_zero xs)"
  by (simp add: fill_zero_def list_all_iff)

lemma fill_zero_field_all_zero:
  "list_all (list_all (list_all (\<lambda>v. v = 0))) (fill_zero_field a)"
  by (simp add: fill_zero_field_def fill_zero_def list_all_iff)

lemma fill_zero_idem: "fill_zero (fill_zero xs) = fill_zero xs"
  by (simp add: fill_zero_def)

lemma fill_zero_field_idem: "fill_zero_field (fill_zero_field a) = fill_zero_field a"
  by (simp add: fill_zero_field_def fill_zero_def)

lemma shutdown_state:
  "fst (emergency_graviton_shutdown self t0 t1) =
     self\<lparr> field_active := False, emergency_stop := True,
            graviton_field_h := fill_zero_field (graviton_field_h self),
            controller.stress_energy_tensor := fill_zero (controller.stress_energy_tensor self),
            riemann_curvature := fill_zero (riemann_curvature self),
            polymer_holonomy := fill_zero (polymer_holonomy self),
            polymer_flux := fill_zero (polymer_flux self),
            controller.field_metrics := default_GravitonFieldMetrics \<rparr>"
  by (simp add: emergency_graviton_shutdown_def Let_def default_GravitonFieldMetrics_def)

lemma shutdown_report:
  "snd (emergency_graviton_shutdown self t0 t1) =
     \<lparr> shutdown_time_ms = (t1 - t0) * 1000,
       within_medical_response_limit =
         ((t1 - t0) * 1000
            < GravitonSafetyConstraints.emergency_shutdown_time_ms (controller.safety_constraints self)),
       emergency_response_requirement_ms =
         GravitonSafetyConstraints.emergency_shutdown_time_ms (controller.safety_constraints self),
       all_fields_deactivated = True,
       positive_energy_maintained = True,
       causality_preserved = True,
       biological_safety_secured = True,
       system_safe_state = True \<rparr>"
  by (simp add: emergency_graviton_shutdown_def Let_def)

text \<open>
  C6. Two emergency shutdowns in succession, from any controller state and with any clock
  readings, give two reports whose safe-state fields are identical (all asserted, with the
  same response requirement). After the first call the controller is stopped
  (\<open>emergency_stop\<close> true, \<open>field_active\<close> false), the graviton field, the stress-energy
  tensor, the curvature, the polymer holonomy and the polymer flux are all zeros, and the
  metrics are the safe default with \<open>emergency_response_ready\<close> asserted; the second call
  leaves exactly that state.
\<close>

theorem shutdown_twice_same_safe_state:
  "(let (s1, r1) = emergency_graviton_shutdown self t0 t1;
        (s2, r2) = emergency_graviton_shutdown s1 t2 t3
    in s2 = s1
     \<and> all_fields_deactivated r1 \<and> all_fields_deactivated r2
     \<and> positive_energy_maintained r1 \<and> positive_energy_maintained r2
     \<and> causality_preserved r1 \<and> causality_preserved r2
     \<and> biological_safety_secured r1 \<and> biological_safety_secured r2
     \<and> system_safe_state r1 \<and> system_safe_state r2
     \<and> emergency_response_requirement_ms r2 = emergency_response_requirement_ms r1
     \<and> emergency_stop s1 \<and> \<not> field_active s1
     \<and> list_all (list_all (list_all (\<lambda>v. v = 0))) (graviton_field_h s1)
     \<and> list_all (\<lambda>v. v = 0) (controller.stress_energy_tensor s1)
     \<and> list_all (\<lambda>v. v = 0) (riemann_curvature s1)
     \<and> list_all (\<lambda>v. v = 0) (polymer_holonomy s1)
     \<and> list_all (\<lambda>v. v = 0) (polymer_flux s1)
     \<and> controller.field_metrics s1 = default_GravitonFieldMetrics
     \<and> emergency_response_ready (controller.field_metrics s1))"
proof -
  obtain s1 r1 where c1: "emergency_graviton_shutdown self t0 t1 = (s1, r1)"
    by (cases "emergency_graviton_shutdown self t0 t1")
  obtain s2 r2 where c2: "emergency_graviton_shutdown s1 t2 t3 = (s2, r2)"
    by (cases "emergency_graviton_shutdown s1 t2 t3")
  have s1: "s1 = fst (emergency_graviton_shutdown self t0 t1)"
    and r1: "r1 = snd (emergency_graviton_shutdown self t0 t1)"
    and s2: "s2 = fst (emergency_graviton_shutdown s1 t2 t3)"
    and r2: "r2 = snd (emergency_graviton_shutdown s1 t2 t3)"
    using c1 c2 by simp_all
  have idem: "s2 = s1"
    unfolding s2 shutdown_state unfolding s1 shutdown_state
    by (simp add: fill_zero_idem fill_zero_field_idem)
  have same: "controller.safety_constraints s1 = controller.safety_constraints self"
    unfolding s1 shutdown_state by simp
  have st: "emergency_stop s1" "\<not> field_active s1"
    "list_all (list_all (list_all (\<lambda>v. v = 0))) (graviton_field_h s1)"
    "list_all (\<lambda>v. v = 0) (controller.stress_energy_tensor s1)"
    "list_all (\<lambda>v. v = 0) (riemann_curvature s1)"
    "list_all (\<lambda>v. v = 0) (polymer_holonomy s1)"
    "list_all (\<lambda>v. v = 0) (polymer_flux s1)"
    "controller.field_metrics s1 = default_GravitonFieldMetrics"
    "emergency_response_ready (controller.field_metrics s1)"
    unfolding s1 shutdown_state
    by (simp_all add: fill_zero_all_zero fill_zero_field_all_zero default_GravitonFieldMetrics_def)
  have rep: "all_fields_deactivated r1" "all_fields_deactivated r2"
    "positive_energy_maintained r1" "positive_energy_maintained r2"
    "causality_preserved r1" "causality_preserved r2"
    "biological_safety_secured r1" "biological_safety_secured r2"
    "system_safe_state r1" "system_safe_state r2"
    "emergency_response_requirement_ms r2 = emergency_response_requirement_ms r1"
    unfolding r1 r2 shutdown_report using same by simp_all
  show ?thesis
    unfolding c1 Let_def prod.case c2 using idem st rep by simp
qed

subsection \<open>Status report\<close>

text \<open>
  C10. The status report leaves the controller state unchanged: for every controller state
  the state after the call equals the state before it, so the field buffers, the field
  metrics, the safety constraints and the control flags keep their values. When a report is
  returned, its certification block has \<open>positive_energy_guaranteed\<close> equal to
  (compliance at least 0.999), \<open>no_exotic_matter\<close> true, and \<open>medical_grade_validated\<close>
  equal to the validator's safe flag; a report is returned whenever the constraints come
  from the table of a safety level.
\<close>

theorem status_report_leaves_state_unchanged:
  "fst (get_safety_status_report self now) = self
   \<and> (case snd (get_safety_status_report self now) of
        Inl e \<Rightarrow> validate_medical_safety self (controller.field_metrics self) = Inl e
      | Inr report \<Rightarrow>
          validate_medical_safety self (controller.field_metrics self)
            = Inr (safety_validation report)
        \<and> positive_energy_guaranteed (medical_certification report)
            = (GravitonFieldMetrics.positive_energy_compliance (controller.field_metrics self)
                 \<ge> 999 / 1000)
        \<and> no_exotic_matter (medical_certification report) = True
        \<and> medical_grade_validated (medical_certification report)
            = safe_for_medical_use (safety_validation report))
   \<and> (controller.safety_constraints self = initialize_safety_constraints level
        \<longrightarrow> (\<exists>report. snd (get_safety_status_report self now) = Inr report))"
proof (intro conjI impI)
  show "fst (get_safety_status_report self now) = self"
    by (simp add: get_safety_status_report_def Let_def split: sum.splits)
  show "case snd (get_safety_status_report self now) of
        Inl e \<Rightarrow> validate_medical_safety self (controller.field_metrics self) = Inl e
      | Inr report \<Rightarrow>
          validate_medical_safety self (controller.field_metrics self)
            = Inr (safety_validation report)
        \<and> positive_energy_guaranteed (medical_certification report)
            = (GravitonFieldMetrics.positive_energy_compliance (controller.field_metrics self)
                 \<ge> 999 / 1000)
        \<and> no_exotic_matter (medical_certification report) = True
        \<and> medical_grade_validated (medical_certification report)
            = safe_for_medical_use (safety_validation report)"
    by (cases "validate_medical_safety self (controller.field_metrics self)")
       (simp_all add: get_safety_status_report_def Let_def)
next
  assume "controller.safety_constraints self = initialize_safety_constraints level"
  then obtain v where "validate_medical_safety self (controller.field_metrics self) = Inr v"
    using validate_table_returns by blast
  then show "\<exists>report. snd (get_safety_status_report self now) = Inr report"
    by (simp add: get_safety_status_report_def Let_def)
qed

text \<open>The default controller returns a report and is left as it was.\<close>

theorem status_report_leaves_state_unchanged_witness:
  "controller.safety_constraints default_controller = initialize_safety_constraints TISSUE_STANDARD
   \<and> fst (get_safety_status_report default_controller ''2025-01-01 00:00:00 UTC'') = default_controller
   \<and> (\<exists>report. snd (get_safety_status_report default_controller ''2025-01-01 00:00:00 UTC'')
                  = Inr report)"
  using status_report_leaves_state_unchanged
    [of default_controller "''2025-01-01 00:00:00 UTC''" TISSUE_STANDARD]
  by (simp add: default_controller_def MedicalGravitonSafetyController_def)

end
